theory Spec2Isabelle
  imports Complex_Main "HOL-Library.Word"
begin

section \<open>JavaScript numbers on integer values\<close>

text \<open>
  The server is TypeScript; every \<^verbatim>\<open>number\<close> is an IEEE 754 double. A double holds
  every integer of magnitude up to \<open>2^53\<close> exactly; beyond that it keeps 53 significant
  bits, and the result of an operation is rounded to the nearest such value, ties to the
  even significand. \<open>to_number\<close> is that rounding on a mathematical integer; it is the
  double's value for magnitudes below the overflow threshold \<open>2^1024\<close>, and every
  result below concerns values far under it.
\<close>

function bit_length :: "int \<Rightarrow> nat" where
  "bit_length n = (if n \<le> 0 then 0 else Suc (bit_length (n div 2)))"
  by pat_completeness auto
termination
  by (relation "measure nat") auto

declare bit_length.simps [simp del]

definition to_number :: "int \<Rightarrow> int" where
  "to_number x =
     (if \<bar>x\<bar> \<le> 2 ^ 53 then x
      else let q = 2 ^ (bit_length \<bar>x\<bar> - 53);
               lo = (x div q) * q;
               r = x - lo
           in if 2 * r < q then lo
              else if q < 2 * r then lo + q
              else if even (x div q) then lo else lo + q)"

definition js_add :: "int \<Rightarrow> int \<Rightarrow> int" where
  "js_add a b = to_number (a + b)"

section \<open>CPU load generator\<close>

text \<open>
  \<^verbatim>\<open>
  function fibonacci(n: number): number {
    if (n <= 1) return n
    return fibonacci(n - 1) + fibonacci(n - 2)
  }
  \<close>
  The argument is an integer of ordinary size, where \<^verbatim>\<open>n - 1\<close> and \<^verbatim>\<open>n - 2\<close> are exact;
  the sum of the two results is a double addition.
\<close>

function fibonacci :: "int \<Rightarrow> int" where
  "fibonacci n = (if n \<le> 1 then n else js_add (fibonacci (n - 1)) (fibonacci (n - 2)))"
  by pat_completeness auto
termination
  by (relation "measure nat") auto

declare fibonacci.simps [simp del]

text \<open>The reference recurrence of the specification, on the natural numbers.\<close>

fun fib_spec :: "nat \<Rightarrow> int" where
  "fib_spec 0 = 0"
| "fib_spec (Suc 0) = 1"
| "fib_spec (Suc (Suc n)) = fib_spec (Suc n) + fib_spec n"

text \<open>A linear-time pair iteration, used only to evaluate the recurrence at large indices.\<close>

fun fib_pair :: "nat \<Rightarrow> int \<times> int" where
  "fib_pair 0 = (0, 1)"
| "fib_pair (Suc n) = (case fib_pair n of (a, b) \<Rightarrow> (b, a + b))"
section \<open>Query parameters\<close>

text \<open>
  \<^verbatim>\<open>parseInt(string)\<close> with no radix, after ECMAScript: leading white space is dropped,
  then an optional sign, then an optional \<^verbatim>\<open>0x\<close>/\<^verbatim>\<open>0X\<close> prefix (radix 16, otherwise
  10), then the longest run of digits of the radix. No digit gives \<^verbatim>\<open>NaN\<close>, here
  \<open>None\<close>.

  A string is the UTF-8 encoding of the JavaScript string. \<open>white_space_length\<close> is the
  number of bytes of the white-space or line-terminator character at the head of a
  string, 0 when there is none: TAB, LF, VT, FF, CR, SP, and the encodings of U+00A0,
  U+1680, U+2000 to U+200A, U+2028, U+2029, U+202F, U+205F, U+3000 and U+FEFF.
\<close>

definition white_space_length :: "string \<Rightarrow> nat" where
  "white_space_length s =
     (case map of_char (take 3 s) :: nat list of
        [] \<Rightarrow> 0
      | a # r \<Rightarrow>
          if a \<in> {0x09, 0x0A, 0x0B, 0x0C, 0x0D, 0x20} then 1
          else (case r of
                  [] \<Rightarrow> 0
                | b # r' \<Rightarrow>
                    if a = 0xC2 \<and> b = 0xA0 then 2
                    else (case r' of
                            [] \<Rightarrow> 0
                          | c # r'' \<Rightarrow>
                              if (a = 0xE1 \<and> b = 0x9A \<and> c = 0x80)
                                 \<or> (a = 0xE2 \<and> b = 0x80
                                     \<and> (0x80 \<le> c \<and> c \<le> 0x8A
                                          \<or> c = 0xA8 \<or> c = 0xA9 \<or> c = 0xAF))
                                 \<or> (a = 0xE2 \<and> b = 0x81 \<and> c = 0x9F)
                                 \<or> (a = 0xE3 \<and> b = 0x80 \<and> c = 0x80)
                                 \<or> (a = 0xEF \<and> b = 0xBB \<and> c = 0xBF)
                              then 3 else 0)))"

function trimStart :: "string \<Rightarrow> string" where
  "trimStart s =
     (if white_space_length s = 0 then s else trimStart (drop (white_space_length s) s))"
  by pat_completeness auto
termination
  apply (relation "measure length")
   apply simp
  apply (case_tac s)
   apply (simp_all add: white_space_length_def)
  done

declare trimStart.simps [simp del]

definition digit_value :: "char \<Rightarrow> int option" where
  "digit_value c =
     (let k = of_char c :: int
      in if 48 \<le> k \<and> k \<le> 57 then Some (k - 48)
         else if 97 \<le> k \<and> k \<le> 122 then Some (k - 87)
         else if 65 \<le> k \<and> k \<le> 90 then Some (k - 55)
         else None)"

definition is_digit :: "int \<Rightarrow> char \<Rightarrow> bool" where
  "is_digit R c = (case digit_value c of None \<Rightarrow> False | Some d \<Rightarrow> d < R)"

text \<open>
  The result is the double nearest to the digits' value. A run of digits whose value
  rounds beyond the largest double is \<^verbatim>\<open>Infinity\<close> in the runtime, which an integer
  cannot express: the result below is the runtime's for values under \<open>2^1024\<close>, and the
  statements about the handlers are made on their parameters, after parsing.
\<close>

definition parseInt :: "string \<Rightarrow> int option" where
  "parseInt inputString =
     (let S = trimStart inputString;
          sign = (if S \<noteq> [] \<and> hd S = CHR ''-'' then - 1 else 1 :: int);
          S1 = (if S \<noteq> [] \<and> (hd S = CHR ''+'' \<or> hd S = CHR ''-'') then tl S else S);
          hex = (take 2 S1 = ''0x'' \<or> take 2 S1 = ''0X'');
          R = (if hex then 16 else 10 :: int);
          S2 = (if hex then drop 2 S1 else S1);
          Z = takeWhile (is_digit R) S2
      in if Z = [] then None
         else Some (to_number (sign * foldl (\<lambda>a c. a * R + the (digit_value c)) 0 Z)))"

text \<open>
  \<^verbatim>\<open>req.query.x\<close> is \<open>None\<close> when the parameter is absent (\<^verbatim>\<open>undefined\<close>, which
  \<^verbatim>\<open>parseInt\<close> converts to the string \<^verbatim>\<open>"undefined"\<close>).
\<close>

definition parseInt_query :: "string option \<Rightarrow> int option" where
  "parseInt_query q = parseInt (case q of None \<Rightarrow> ''undefined'' | Some v \<Rightarrow> v)"

text \<open>\<^verbatim>\<open>x || d\<close> on a number: \<^verbatim>\<open>NaN\<close> and zero are falsy.\<close>

definition or_default :: "int option \<Rightarrow> int \<Rightarrow> int" where
  "or_default x d = (case x of None \<Rightarrow> d | Some v \<Rightarrow> if v = 0 then d else v)"


section \<open>Values, JSON and responses\<close>

text \<open>
  Numbers that need not be integers (an uptime in seconds, a rate): a finite double is
  abstracted to the rational it approximates; the three non-finite doubles are kept.
\<close>

datatype number = Finite rat | PosInfinity | NegInfinity | NaN

text \<open>Division \<^verbatim>\<open>a / b\<close> of finite numbers; a zero divisor is \<open>+0\<close> wherever it occurs here.\<close>

definition js_divide :: "rat \<Rightarrow> rat \<Rightarrow> number" where
  "js_divide a b =
     (if b = 0 then (if a = 0 then NaN else if 0 < a then PosInfinity else NegInfinity)
      else Finite (a / b))"

datatype jsvalue = JSNumber number | JSString string | JSObject "(string \<times> jsvalue) list"

datatype json = JNull | JNum rat | JStr string | JObj "(string \<times> json) list"

definition num :: "int \<Rightarrow> jsvalue" where
  "num k = JSNumber (Finite (of_int k))"

text \<open>
  \<^verbatim>\<open>JSON.stringify\<close>, which \<^verbatim>\<open>res.json\<close> applies to its argument: a number that is not
  finite is written \<^verbatim>\<open>null\<close>. The result is the JSON document as a tree.
\<close>

fun JSON_stringify :: "jsvalue \<Rightarrow> json" where
  "JSON_stringify (JSNumber x) = (case x of Finite q \<Rightarrow> JNum q | _ \<Rightarrow> JNull)"
| "JSON_stringify (JSString s) = JStr s"
| "JSON_stringify (JSObject kvs) = JObj (map (map_prod id JSON_stringify) kvs)"

datatype payload = Text string | Json json

record response =
  status :: nat
  content_type :: "string option"
  body :: payload

definition res_json :: "jsvalue \<Rightarrow> response" where
  "res_json v = \<lparr>status = 200, content_type = Some ''application/json'',
                  body = Json (JSON_stringify v)\<rparr>"

definition field :: "response \<Rightarrow> string \<Rightarrow> json option" where
  "field r k = (case body r of Json (JObj kvs) \<Rightarrow> map_of kvs k | _ \<Rightarrow> None)"
section \<open>Process state and environment\<close>

text \<open>
  \<^verbatim>\<open>
  interface LoadTestMetrics { requestCount: number; startTime: number; errors: number }
  const metrics: LoadTestMetrics = { requestCount: 0, startTime: Date.now(), errors: 0 }
  \<close>
  The two counters start at zero and grow by one per event, far below \<open>2^53\<close>, where
  \<^verbatim>\<open>++\<close> is exact; they are integers here.
\<close>

record LoadTestMetrics =
  requestCount :: int
  startTime :: int
  errors :: int

text \<open>
  A thrown value, as far as \<^verbatim>\<open>catch (e: any)\<close> followed by \<^verbatim>\<open>e.stack\<close> tells values
  apart: \<open>Error st\<close> is an object whose \<^verbatim>\<open>stack\<close> is the string \<open>st\<close> (every
  \<^verbatim>\<open>Error\<close>); \<open>NoStack\<close> is a value that has no \<^verbatim>\<open>stack\<close>, such as a thrown string or
  number, where \<^verbatim>\<open>e.stack\<close> is \<^verbatim>\<open>undefined\<close>; \<open>Nullish\<close> is \<^verbatim>\<open>null\<close> or \<^verbatim>\<open>undefined\<close>,
  where reading \<^verbatim>\<open>e.stack\<close> throws a \<^verbatim>\<open>TypeError\<close>. An object whose \<^verbatim>\<open>stack\<close> was set to
  something that is not a string is not represented.
\<close>

datatype exn = Error string | NoStack | Nullish

text \<open>
  What an async handler's promise is rejected with when an exception leaves the handler:
  the handler has then sent no response.
\<close>

datatype rejection = TypeError | RangeError

datatype logarg = LText string | LError exn | LUndefined

text \<open>
  A \<^verbatim>\<open>Buffer\<close> is a reference into the heap: the heap is the list of the buffers
  allocated so far, and a reference is an index into it.
\<close>

type_synonym buffer = "8 word list"
type_synonym heap = "buffer list"

record server =
  metrics :: LoadTestMetrics
  heap :: heap
  console :: "logarg list list"
  exited :: "int option"

definition initial :: "int \<Rightarrow> server" where
  "initial now = \<lparr>metrics = \<lparr>requestCount = 0, startTime = now, errors = 0\<rparr>,
                   heap = [], console = [], exited = None\<rparr>"

text \<open>
  What a handler reads from its surroundings: the readings of \<^verbatim>\<open>Date.now()\<close> (\<open>t0\<close>
  is what the first call in the handler returns, \<open>t1\<close> what a later call returns),
  \<^verbatim>\<open>process.uptime()\<close>, what \<^verbatim>\<open>process.memoryUsage()\<close> reports for a given heap,
  \<^verbatim>\<open>process.cpuUsage()\<close>, \<^verbatim>\<open>new Date().toISOString()\<close>, whether \<^verbatim>\<open>require('nsolid')\<close>
  succeeded, and how many nested calls the call stack has room for.
\<close>

record env =
  t0 :: int
  t1 :: int
  uptime :: rat
  memoryUsage :: "heap \<Rightarrow> jsvalue"
  cpuUsage :: jsvalue
  toISOString :: string
  nsolid :: bool
  callStack :: int

text \<open>An environment for the examples: the two clock readings are given, the rest is plain.\<close>

definition env_at :: "int \<Rightarrow> int \<Rightarrow> env" where
  "env_at a b = \<lparr>t0 = a, t1 = b, uptime = 0, memoryUsage = (\<lambda>h. JSObject []),
                  cpuUsage = JSObject [], toISOString = [], nsolid = False,
                  callStack = 10000\<rparr>"

section \<open>Global error handlers\<close>

text \<open>
  \<^verbatim>\<open>
  process.on('uncaughtException', (err) => {
    console.error('Uncaught Exception:', err)
    metrics.errors++
  })
  process.on('unhandledRejection', (reason, promise) => {
    console.error('Unhandled Rejection at:', promise, 'reason:', reason)
    metrics.errors++
  })
  \<close>
  With a listener registered the runtime calls it and goes on; neither listener calls
  \<^verbatim>\<open>process.exit\<close>. The promise is logged as an opaque text.
\<close>

definition uncaughtException :: "exn \<Rightarrow> server \<Rightarrow> server" where
  "uncaughtException err s =
     s\<lparr>console := console s @ [[LText ''Uncaught Exception:'', LError err]],
       metrics := (metrics s)\<lparr>errors := errors (metrics s) + 1\<rparr>\<rparr>"

definition unhandledRejection :: "exn \<Rightarrow> string \<Rightarrow> server \<Rightarrow> server" where
  "unhandledRejection reason promise s =
     s\<lparr>console := console s @
          [[LText ''Unhandled Rejection at:'', LText promise, LText ''reason:'', LError reason]],
       metrics := (metrics s)\<lparr>errors := errors (metrics s) + 1\<rparr>\<rparr>"

text \<open>
  \<^verbatim>\<open>
  initializeServer().catch(err => {
    console.error('Failed to start server:', err)
    process.exit(1)
  })
  \<close>
  The only call of \<^verbatim>\<open>process.exit\<close> in the server.
\<close>

definition startup_failed :: "exn \<Rightarrow> server \<Rightarrow> server" where
  "startup_failed err s =
     s\<lparr>console := console s @ [[LText ''Failed to start server:'', LError err]],
       exited := Some 1\<rparr>"

section \<open>Memory load generator\<close>

text \<open>
  \<^verbatim>\<open>
  function allocateMemory(sizeMB: number): Buffer[] {
    const buffers: Buffer[] = []
    const iterations = Math.floor(sizeMB)
    for (let i = 0; i < iterations; i++) {
      buffers.push(Buffer.alloc(1024 * 1024)) // 1MB buffer
    }
    return buffers
  }
  \<close>
  \<^verbatim>\<open>Buffer.alloc(size)\<close> makes a new zero-filled buffer.
\<close>

definition Buffer_alloc :: "nat \<Rightarrow> heap \<Rightarrow> nat \<times> heap" where
  "Buffer_alloc n h = (length h, h @ [replicate n 0])"

function allocateMemory_loop :: "int \<Rightarrow> int \<Rightarrow> nat list \<Rightarrow> heap \<Rightarrow> nat list \<times> heap" where
  "allocateMemory_loop i iterations buffers h =
     (if i < iterations
      then (case Buffer_alloc (1024 * 1024) h of
              (b, h') \<Rightarrow> allocateMemory_loop (i + 1) iterations (buffers @ [b]) h')
      else (buffers, h))"
  by pat_completeness auto
termination
  by (relation "measure (\<lambda>(i, iterations, buffers, h). nat (iterations - i))") auto

declare allocateMemory_loop.simps [simp del]

definition allocateMemory :: "rat \<Rightarrow> heap \<Rightarrow> nat list \<times> heap" where
  "allocateMemory sizeMB h = allocateMemory_loop 0 \<lfloor>sizeMB\<rfloor> [] h"

section \<open>What a handler does, step by step\<close>

text \<open>
  A handler is a sequence of calls. Each call below returns its value and appends its own
  mark to the record of what the handler has done so far, so that the record of a handler
  is produced by running its statements in their order.
\<close>

datatype effect =
    DateNow
  | NsolidProfile int
  | CallFibonacci int
  | CallAllocateMemory int
  | AwaitTimeout int
  | SetTimeoutClear "nat list" int
  | MemoryUsage

record outcome =
  reply :: response
  effects :: "effect list"

text \<open>\<^verbatim>\<open>Date.now()\<close>: the first reading of a handler is \<open>t0\<close>, a later one \<open>t1\<close>.\<close>

definition Date_now :: "env \<Rightarrow> effect list \<Rightarrow> int \<times> effect list" where
  "Date_now e tr = (if DateNow \<in> set tr then t1 e else t0 e, tr @ [DateNow])"

text \<open>\<^verbatim>\<open>nsolid.profile(duration, callback)\<close> starts a profile and returns.\<close>

definition nsolid_profile :: "int \<Rightarrow> effect list \<Rightarrow> effect list" where
  "nsolid_profile duration tr = tr @ [NsolidProfile duration]"

text \<open>
  A call of \<^verbatim>\<open>fibonacci(n)\<close> nests \<open>n\<close> calls deep (one call for \<open>n \<le> 1\<close>); when the
  call stack has no room for them the call throws a \<^verbatim>\<open>RangeError\<close>.
\<close>

definition call_fibonacci :: "env \<Rightarrow> int \<Rightarrow> effect list \<Rightarrow> (rejection + int) \<times> effect list" where
  "call_fibonacci e n tr =
     (if callStack e < max 1 n then Inl RangeError else Inr (fibonacci n),
      tr @ [CallFibonacci n])"

text \<open>\<^verbatim>\<open>allocateMemory(sizeMB)\<close> on the heap as it is at the call.\<close>

definition call_allocateMemory ::
  "int \<Rightarrow> heap \<Rightarrow> effect list \<Rightarrow> (nat list \<times> heap) \<times> effect list" where
  "call_allocateMemory sizeMB h tr =
     (allocateMemory (of_int sizeMB) h, tr @ [CallAllocateMemory sizeMB])"

text \<open>\<^verbatim>\<open>await new Promise(resolve => setTimeout(resolve, delay))\<close>.\<close>

definition await_setTimeout :: "int \<Rightarrow> effect list \<Rightarrow> effect list" where
  "await_setTimeout delay tr = tr @ [AwaitTimeout delay]"

text \<open>\<^verbatim>\<open>setTimeout(() => { buffers.length = 0 }, ms)\<close> schedules the release and returns.\<close>

definition setTimeout_clear :: "nat list \<Rightarrow> int \<Rightarrow> effect list \<Rightarrow> effect list" where
  "setTimeout_clear buffers ms tr = tr @ [SetTimeoutClear buffers ms]"

text \<open>\<^verbatim>\<open>process.memoryUsage()\<close> reports on the heap as it is at the call.\<close>

definition process_memoryUsage :: "env \<Rightarrow> heap \<Rightarrow> effect list \<Rightarrow> jsvalue \<times> effect list" where
  "process_memoryUsage e h tr = (memoryUsage e h, tr @ [MemoryUsage])"

section \<open>API endpoints\<close>

text \<open>
  \<^verbatim>\<open>
  app.get('/api/health', (req, res) => {
    res.json({ status: 'ok', uptime: process.uptime(), memory: process.memoryUsage(),
               timestamp: new Date().toISOString() })
  })
  \<close>
\<close>

definition health_handler :: "env \<Rightarrow> server \<Rightarrow> outcome \<times> server" where
  "health_handler e s =
     (let (memory, tr1) = process_memoryUsage e (heap s) []
      in (\<lparr>reply = res_json (JSObject
              [(''status'', JSString ''ok''),
               (''uptime'', JSNumber (Finite (uptime e))),
               (''memory'', memory),
               (''timestamp'', JSString (toISOString e))]),
           effects = tr1\<rparr>, s))"

text \<open>
  \<^verbatim>\<open>
  app.get('/api/metrics', (req, res) => {
    const uptime = (Date.now() - metrics.startTime) / 1000
    res.json({
      requestCount: metrics.requestCount,
      errors: metrics.errors,
      uptime,
      requestsPerSecond: metrics.requestCount / uptime,
      memory: process.memoryUsage(),
      cpu: process.cpuUsage()
    })
  })
  \<close>
\<close>

definition metrics_handler :: "env \<Rightarrow> server \<Rightarrow> outcome \<times> server" where
  "metrics_handler e s =
     (let (now, tr1) = Date_now e [];
          uptime = of_int (now - startTime (metrics s)) / 1000;
          (memory, tr2) = process_memoryUsage e (heap s) tr1
      in (\<lparr>reply = res_json (JSObject
              [(''requestCount'', num (requestCount (metrics s))),
               (''errors'', num (errors (metrics s))),
               (''uptime'', JSNumber (Finite uptime)),
               (''requestsPerSecond'',
                  JSNumber (js_divide (of_int (requestCount (metrics s))) uptime)),
               (''memory'', memory),
               (''cpu'', cpuUsage e)]),
           effects = tr2\<rparr>, s))"

text \<open>
  \<^verbatim>\<open>
  app.get('/api/cpu-load', async (req, res) => {
    if (nsolid) { nsolid.profile(4000, (err) => { ... }) }
    const n = parseInt(req.query.n as string) || 40
    const start = Date.now()
    const result = fibonacci(n)
    const duration = Date.now() - start
    res.json({ result, duration, input: n, timestamp: new Date().toISOString() })
  })
  \<close>
  When \<^verbatim>\<open>fibonacci\<close> throws, the exception leaves the async handler: its promise is
  rejected and no response is sent.
\<close>

definition cpu_load_n :: "string option \<Rightarrow> int" where
  "cpu_load_n q = or_default (parseInt_query q) 40"

definition cpu_load_handler ::
  "string option \<Rightarrow> env \<Rightarrow> server \<Rightarrow> (rejection + outcome) \<times> server" where
  "cpu_load_handler q e s =
     (let tr0 = (if nsolid e then nsolid_profile 4000 [] else []);
          n = cpu_load_n q;
          (start, tr1) = Date_now e tr0;
          (thrown_or_result, tr2) = call_fibonacci e n tr1
      in case thrown_or_result of
           Inl err \<Rightarrow> (Inl err, s)
         | Inr result \<Rightarrow>
             (let (now, tr3) = Date_now e tr2;
                  duration = now - start
              in (Inr \<lparr>reply = res_json (JSObject
                      [(''result'', num result),
                       (''duration'', num duration),
                       (''input'', num n),
                       (''timestamp'', JSString (toISOString e))]),
                   effects = tr3\<rparr>, s)))"

text \<open>
  \<^verbatim>\<open>
  app.get('/api/memory-load', (req, res) => {
    const sizeMB = parseInt(req.query.size as string) || 10
    const start = Date.now()
    const buffers = allocateMemory(sizeMB)
    const duration = Date.now() - start
    setTimeout(() => { buffers.length = 0 }, 1000)
    res.json({ allocatedMB: sizeMB, duration, memory: process.memoryUsage(),
               timestamp: new Date().toISOString() })
  })
  \<close>
\<close>

definition memory_load_sizeMB :: "string option \<Rightarrow> int" where
  "memory_load_sizeMB q = or_default (parseInt_query q) 10"

definition memory_load_handler :: "string option \<Rightarrow> env \<Rightarrow> server \<Rightarrow> outcome \<times> server" where
  "memory_load_handler q e s =
     (let sizeMB = memory_load_sizeMB q;
          (start, tr1) = Date_now e [];
          ((buffers, h'), tr2) = call_allocateMemory sizeMB (heap s) tr1;
          (now, tr3) = Date_now e tr2;
          duration = now - start;
          tr4 = setTimeout_clear buffers 1000 tr3;
          (memory, tr5) = process_memoryUsage e h' tr4
      in (\<lparr>reply = res_json (JSObject
              [(''allocatedMB'', num sizeMB),
               (''duration'', num duration),
               (''memory'', memory),
               (''timestamp'', JSString (toISOString e))]),
           effects = tr5\<rparr>,
          s\<lparr>heap := h'\<rparr>))"

text \<open>
  \<^verbatim>\<open>
  app.get('/api/async-load', async (req, res) => {
    const delay = parseInt(req.query.delay as string) || 100
    const start = Date.now()
    await new Promise(resolve => setTimeout(resolve, delay))
    const duration = Date.now() - start
    res.json({ delay, actualDuration: duration, timestamp: new Date().toISOString() })
  })
  \<close>
  \<open>async_load\<close> is the handler from its second statement on, on the parameter that the
  first one has read.
\<close>

definition async_load_delay :: "string option \<Rightarrow> int" where
  "async_load_delay q = or_default (parseInt_query q) 100"

definition async_load :: "int \<Rightarrow> env \<Rightarrow> server \<Rightarrow> outcome \<times> server" where
  "async_load delay e s =
     (let (start, tr1) = Date_now e [];
          tr2 = await_setTimeout delay tr1;
          (now, tr3) = Date_now e tr2;
          duration = now - start
      in (\<lparr>reply = res_json (JSObject
              [(''delay'', num delay),
               (''actualDuration'', num duration),
               (''timestamp'', JSString (toISOString e))]),
           effects = tr3\<rparr>, s))"

definition async_load_handler :: "string option \<Rightarrow> env \<Rightarrow> server \<Rightarrow> outcome \<times> server" where
  "async_load_handler q e s = async_load (async_load_delay q) e s"

text \<open>
  \<^verbatim>\<open>
  app.get('/api/combined-load', async (req, res) => {
    const cpuWork = parseInt(req.query.cpu as string) || 30
    const memoryMB = parseInt(req.query.memory as string) || 5
    const asyncDelay = parseInt(req.query.delay as string) || 50
    const start = Date.now()
    const fibResult = fibonacci(cpuWork)
    const buffers = allocateMemory(memoryMB)
    await new Promise(resolve => setTimeout(resolve, asyncDelay))
    setTimeout(() => { buffers.length = 0 }, 1000)
    const duration = Date.now() - start
    res.json({ fibResult, allocatedMB: memoryMB, asyncDelay, totalDuration: duration,
               memory: process.memoryUsage(), timestamp: new Date().toISOString() })
  })
  \<close>
  \<open>combined_load\<close> is the handler from its fourth statement on, on the three parameters
  that the first three have read. When \<^verbatim>\<open>fibonacci\<close> throws, the promise of the handler
  is rejected, nothing is allocated and no response is sent.
\<close>

definition combined_load_cpuWork :: "string option \<Rightarrow> int" where
  "combined_load_cpuWork q = or_default (parseInt_query q) 30"

definition combined_load_memoryMB :: "string option \<Rightarrow> int" where
  "combined_load_memoryMB q = or_default (parseInt_query q) 5"

definition combined_load_asyncDelay :: "string option \<Rightarrow> int" where
  "combined_load_asyncDelay q = or_default (parseInt_query q) 50"

definition combined_load ::
  "int \<Rightarrow> int \<Rightarrow> int \<Rightarrow> env \<Rightarrow> server \<Rightarrow> (rejection + outcome) \<times> server" where
  "combined_load cpuWork memoryMB asyncDelay e s =
     (let (start, tr1) = Date_now e [];
          (thrown_or_result, tr2) = call_fibonacci e cpuWork tr1
      in case thrown_or_result of
           Inl err \<Rightarrow> (Inl err, s)
         | Inr fibResult \<Rightarrow>
             (let ((buffers, h'), tr3) = call_allocateMemory memoryMB (heap s) tr2;
                  tr4 = await_setTimeout asyncDelay tr3;
                  tr5 = setTimeout_clear buffers 1000 tr4;
                  (now, tr6) = Date_now e tr5;
                  duration = now - start;
                  (memory, tr7) = process_memoryUsage e h' tr6
              in (Inr \<lparr>reply = res_json (JSObject
                      [(''fibResult'', num fibResult),
                       (''allocatedMB'', num memoryMB),
                       (''asyncDelay'', num asyncDelay),
                       (''totalDuration'', num duration),
                       (''memory'', memory),
                       (''timestamp'', JSString (toISOString e))]),
                   effects = tr7\<rparr>,
                  s\<lparr>heap := h'\<rparr>)))"

definition combined_load_handler ::
  "string option \<Rightarrow> string option \<Rightarrow> string option \<Rightarrow> env \<Rightarrow> server
     \<Rightarrow> (rejection + outcome) \<times> server" where
  "combined_load_handler qcpu qmemory qdelay e s =
     combined_load (combined_load_cpuWork qcpu) (combined_load_memoryMB qmemory)
       (combined_load_asyncDelay qdelay) e s"


section \<open>Catch-all rendering handler\<close>

text \<open>
  \<^verbatim>\<open>String.prototype.replace\<close> with a string pattern: the first occurrence is replaced,
  and in the replacement \<^verbatim>\<open>$$\<close> stands for a dollar sign, \<^verbatim>\<open>$&\<close> for the match, and
  \<^verbatim>\<open>$\<close> followed by a backquote or a quote for the text before or after the match.
\<close>

fun indexOf :: "string \<Rightarrow> string \<Rightarrow> nat option" where
  "indexOf pat [] = (if pat = [] then Some 0 else None)"
| "indexOf pat (c # cs) =
     (if take (length pat) (c # cs) = pat then Some 0 else map_option Suc (indexOf pat cs))"

fun substitution :: "string \<Rightarrow> string \<Rightarrow> string \<Rightarrow> string \<Rightarrow> string" where
  "substitution [] matched pre post = []"
| "substitution [c] matched pre post = [c]"
| "substitution (c # d # r) matched pre post =
     (if c = CHR ''$'' \<and> d = CHR ''$'' then CHR ''$'' # substitution r matched pre post
      else if c = CHR ''$'' \<and> d = CHR ''&'' then matched @ substitution r matched pre post
      else if c = CHR ''$'' \<and> d = CHR 0x60 then pre @ substitution r matched pre post
      else if c = CHR ''$'' \<and> d = CHR 0x27 then post @ substitution r matched pre post
      else c # substitution (d # r) matched pre post)"

definition replace :: "string \<Rightarrow> string \<Rightarrow> string \<Rightarrow> string" where
  "replace str pat replacement =
     (case indexOf pat str of
        None \<Rightarrow> str
      | Some i \<Rightarrow>
          (let pre = take i str; post = drop (i + length pat) str
           in pre @ substitution replacement pat pre post @ post))"

text \<open>
  \<^verbatim>\<open>
  app.use('*', async (req, res) => {
    try {
      metrics.requestCount++
      const template = templateHtml
      const entryServer = await import('../dist/server/entry-server.mjs')
      const render = entryServer.render
      const appHtml = await render()
      const html = template
        .replace(`<!--app-html-->`, appHtml)
        .replace(`<!--app-head-->`, '')
      res.status(200).set({ 'Content-Type': 'text/html' }).send(html)
    } catch (e: any) {
      metrics.errors++
      console.error(e.stack)
      res.status(500).end(e.stack)
    }
  })
  \<close>
  The built server entry is not part of the sources: what the import and the renderer
  do is an input, \<open>Inl e\<close> when the import fails with \<open>e\<close>, \<open>Inr (Inl e)\<close> when
  \<^verbatim>\<open>render()\<close> fails with \<open>e\<close>, \<open>Inr (Inr appHtml)\<close> when it returns.

  In the catch block \<^verbatim>\<open>metrics.errors++\<close> comes first. Then \<^verbatim>\<open>e.stack\<close> is read: for an
  \<^verbatim>\<open>Error\<close> it is logged and sent; for a value without a stack it is \<^verbatim>\<open>undefined\<close>, which
  is logged, and \<^verbatim>\<open>res.end(undefined)\<close> ends the response with an empty body; for
  \<^verbatim>\<open>null\<close> or \<^verbatim>\<open>undefined\<close> the read throws, nothing is logged or sent, and the promise of
  the handler is rejected.
\<close>

type_synonym entry = "exn + (exn + string)"

definition ssr_catch :: "exn \<Rightarrow> server \<Rightarrow> (rejection + outcome) \<times> server" where
  "ssr_catch e s =
     (let s1 = s\<lparr>metrics := (metrics s)\<lparr>errors := errors (metrics s) + 1\<rparr>\<rparr>
      in case e of
           Error st \<Rightarrow>
             (Inr \<lparr>reply = \<lparr>status = 500, content_type = None, body = Text st\<rparr>,
                   effects = []\<rparr>,
              s1\<lparr>console := console s1 @ [[LText st]]\<rparr>)
         | NoStack \<Rightarrow>
             (Inr \<lparr>reply = \<lparr>status = 500, content_type = None, body = Text []\<rparr>,
                   effects = []\<rparr>,
              s1\<lparr>console := console s1 @ [[LUndefined]]\<rparr>)
         | Nullish \<Rightarrow> (Inl TypeError, s1))"

definition ssr_handler :: "string \<Rightarrow> entry \<Rightarrow> server \<Rightarrow> (rejection + outcome) \<times> server" where
  "ssr_handler templateHtml entryServer s =
     (let s1 = s\<lparr>metrics := (metrics s)\<lparr>requestCount := requestCount (metrics s) + 1\<rparr>\<rparr>;
          template = templateHtml
      in case entryServer of
           Inl e \<Rightarrow> ssr_catch e s1
         | Inr render \<Rightarrow>
             (case render of
                Inl e \<Rightarrow> ssr_catch e s1
              | Inr appHtml \<Rightarrow>
                  (let html = replace (replace template ''<!--app-html-->'' appHtml)
                                ''<!--app-head-->'' []
                   in (Inr \<lparr>reply = \<lparr>status = 200, content_type = Some ''text/html'',
                                      body = Text html\<rparr>, effects = []\<rparr>, s1))))"

section \<open>The serving process\<close>

text \<open>
  The router hands each request to one handler: the six \<^verbatim>\<open>/api\<close> routes, and
  \<^verbatim>\<open>app.use('*', ...)\<close> for every other request. Besides requests, the process sees the
  two process-wide events. A request is one event: a handler that awaits may be
  interleaved with others, but the metrics only ever receive increments, which commute,
  so the counters after a set of requests do not depend on the interleaving. When the
  promise of an async handler is rejected, the runtime raises the unhandled rejection
  later, as an event of its own.
\<close>

datatype request =
    Health
  | Metrics
  | CpuLoad "string option"
  | MemoryLoad "string option"
  | AsyncLoad "string option"
  | CombinedLoad "string option" "string option" "string option"
  | Render entry

datatype event =
    Request request env
  | UncaughtException exn
  | UnhandledRejection exn string

fun handle ::
  "string \<Rightarrow> request \<Rightarrow> env \<Rightarrow> server \<Rightarrow> (rejection + outcome) \<times> server" where
  "handle templateHtml Health e s = apfst Inr (health_handler e s)"
| "handle templateHtml Metrics e s = apfst Inr (metrics_handler e s)"
| "handle templateHtml (CpuLoad q) e s = cpu_load_handler q e s"
| "handle templateHtml (MemoryLoad q) e s = apfst Inr (memory_load_handler q e s)"
| "handle templateHtml (AsyncLoad q) e s = apfst Inr (async_load_handler q e s)"
| "handle templateHtml (CombinedLoad qc qm qd) e s = combined_load_handler qc qm qd e s"
| "handle templateHtml (Render entryServer) e s = ssr_handler templateHtml entryServer s"

fun occur :: "string \<Rightarrow> server \<Rightarrow> event \<Rightarrow> server" where
  "occur templateHtml s (Request r e) = snd (handle templateHtml r e s)"
| "occur templateHtml s (UncaughtException err) = uncaughtException err s"
| "occur templateHtml s (UnhandledRejection reason promise) = unhandledRejection reason promise s"

definition run :: "string \<Rightarrow> server \<Rightarrow> event list \<Rightarrow> server" where
  "run templateHtml s evs = foldl (occur templateHtml) s evs"

text \<open>The events that the claims count.\<close>

fun is_render :: "event \<Rightarrow> bool" where
  "is_render (Request (Render entryServer) e) = True"
| "is_render ev = False"

fun thrown :: "entry \<Rightarrow> exn option" where
  "thrown (Inl e) = Some e"
| "thrown (Inr (Inl e)) = Some e"
| "thrown (Inr (Inr appHtml)) = None"

definition failed :: "entry \<Rightarrow> bool" where
  "failed entryServer = (thrown entryServer \<noteq> None)"

fun is_error :: "event \<Rightarrow> bool" where
  "is_error (Request (Render entryServer) e) = failed entryServer"
| "is_error (Request r e) = False"
| "is_error (UncaughtException err) = True"
| "is_error (UnhandledRejection reason promise) = True"

section \<open>The CPU load generator and the Fibonacci recurrence\<close>

lemma fib_pair_eq: "fib_pair n = (fib_spec n, fib_spec (Suc n))"
  by (induction n) simp_all

lemma fib_spec_nonneg: "0 \<le> fib_spec n"
  by (induction n rule: fib_spec.induct) simp_all

lemma fib_spec_Suc_mono: "fib_spec n \<le> fib_spec (Suc n)"
  by (cases n) (simp_all add: fib_spec_nonneg)

lemma fib_spec_mono: "n \<le> m \<Longrightarrow> fib_spec n \<le> fib_spec m"
  by (rule lift_Suc_mono_le [of fib_spec]) (simp_all add: fib_spec_Suc_mono)

lemma fib_pair_77: "fib_pair 77 = (5527939700884757, 8944394323791464)"
  by code_simp

lemma fib_spec_77: "fib_spec 77 = 5527939700884757"
  using fib_pair_77 by (simp add: fib_pair_eq)

lemma fib_spec_78: "fib_spec 78 = 8944394323791464"
  using fib_pair_77 by (simp add: fib_pair_eq)

lemma fib_spec_79: "fib_spec 79 = 14472334024676221"
proof -
  have "fib_spec (Suc (Suc 77)) = fib_spec (Suc 77) + fib_spec 77"
    by (rule fib_spec.simps)
  then show ?thesis
    using fib_spec_77 fib_spec_78 by simp
qed

lemma fib_spec_values:
  "fib_spec 0 = 0" "fib_spec 1 = 1" "fib_spec 2 = 1" "fib_spec 10 = 55" "fib_spec 20 = 6765"
proof -
  have "fib_pair 0 = (0, 1)" "fib_pair 1 = (1, 1)" "fib_pair 2 = (1, 2)"
    "fib_pair 10 = (55, 89)" "fib_pair 20 = (6765, 10946)"
    by code_simp+
  then show "fib_spec 0 = 0" "fib_spec 1 = 1" "fib_spec 2 = 1" "fib_spec 10 = 55"
    "fib_spec 20 = 6765"
    by (simp_all add: fib_pair_eq)
qed

lemma fib_spec_30: "fib_spec 30 = 832040"
proof -
  have "fib_pair 30 = (832040, 1346269)"
    by code_simp
  then show ?thesis
    by (simp add: fib_pair_eq)
qed

lemma to_number_exact: "\<bar>x\<bar> \<le> 2 ^ 53 \<Longrightarrow> to_number x = x"
  by (simp add: to_number_def)

lemma fib_spec_small: "n \<le> 78 \<Longrightarrow> \<bar>fib_spec n\<bar> \<le> 2 ^ 53"
  using fib_spec_mono [of n 78] fib_spec_nonneg [of n] fib_spec_78 by simp

text \<open>Up to index 78 every sum stays within the exact range, so no rounding occurs.\<close>

lemma fibonacci_nat_exact: "k \<le> 78 \<Longrightarrow> fibonacci (int k) = fib_spec k"
proof (induction k rule: fib_spec.induct)
  case 1
  show ?case by (simp add: fibonacci.simps)
next
  case 2
  show ?case by (simp add: fibonacci.simps)
next
  case (3 n)
  have a: "fibonacci (int (Suc (Suc n)) - 1) = fib_spec (Suc n)"
    using 3 by simp
  have b: "fibonacci (int (Suc (Suc n)) - 2) = fib_spec n"
    using 3 by simp
  have "fibonacci (int (Suc (Suc n))) =
      js_add (fibonacci (int (Suc (Suc n)) - 1)) (fibonacci (int (Suc (Suc n)) - 2))"
    by (subst fibonacci.simps) simp
  also have "\<dots> = to_number (fib_spec (Suc (Suc n)))"
    by (simp only: a b js_add_def fib_spec.simps)
  also have "\<dots> = fib_spec (Suc (Suc n))"
    using 3(3) by (intro to_number_exact fib_spec_small)
  finally show ?case .
qed

lemma fibonacci_exact: "0 \<le> n \<Longrightarrow> n \<le> 78 \<Longrightarrow> fibonacci n = fib_spec (nat n)"
  using fibonacci_nat_exact [of "nat n"] by simp

lemma to_number_fib_79: "to_number 14472334024676221 = 14472334024676220"
  by (simp add: to_number_def Let_def bit_length.simps)

lemma fibonacci_79: "fibonacci 79 = 14472334024676220"
proof -
  have "fibonacci 79 = js_add (fibonacci 78) (fibonacci 77)"
    by (subst fibonacci.simps) simp
  moreover have "fibonacci 78 = fib_spec 78"
    using fibonacci_nat_exact [of 78] by simp
  moreover have "fibonacci 77 = fib_spec 77"
    using fibonacci_nat_exact [of 77] by simp
  ultimately show ?thesis
    by (simp add: js_add_def fib_spec_77 fib_spec_78 to_number_fib_79)
qed

text \<open>
  C1. For every integer \<open>n\<close> from 0 to 78 the CPU load generator returns the \<open>n\<close>-th
  number of the recurrence \<open>fib(0) = 0\<close>, \<open>fib(1) = 1\<close>, \<open>fib(n) = fib(n-1) + fib(n-2)\<close>;
  in particular it returns 0, 1, 1, 55 and 6765 at 0, 1, 2, 10 and 20.
\<close>

theorem fibonacci_recurrence_upto_78:
  "(\<forall>n. 0 \<le> n \<and> n \<le> 78 \<longrightarrow> fibonacci n = fib_spec (nat n))
   \<and> fibonacci 0 = 0 \<and> fibonacci 1 = 1 \<and> fibonacci 2 = 1
   \<and> fibonacci 10 = 55 \<and> fibonacci 20 = 6765"
proof -
  have "fibonacci 0 = 0" "fibonacci 1 = 1" "fibonacci 2 = 1"
    "fibonacci 10 = 55" "fibonacci 20 = 6765"
    using fibonacci_exact [of 0] fibonacci_exact [of 1] fibonacci_exact [of 2]
      fibonacci_exact [of 10] fibonacci_exact [of 20]
    by (simp_all add: fib_spec_values)
  then show ?thesis
    by (simp add: fibonacci_exact)
qed

theorem fibonacci_recurrence_upto_78_witness:
  "(0::int) \<le> 30 \<and> (30::int) \<le> 78 \<and> fibonacci 30 = 832040"
proof -
  have "0 \<le> (30::int) \<and> (30::int) \<le> 78 \<longrightarrow> fibonacci 30 = fib_spec (nat 30)"
    using fibonacci_recurrence_upto_78 by blast
  then show ?thesis
    by (simp add: fib_spec_30)
qed

text \<open>
  At 79 the exact sum \<open>14472334024676221\<close> is odd and above \<open>2^53\<close>: the double sum
  is the even neighbour, and the generator's result differs from the recurrence.
\<close>

theorem fibonacci_79_counterexample:
  "fibonacci 79 = 14472334024676220 \<and> fib_spec 79 = 14472334024676221
   \<and> fibonacci 79 \<noteq> fib_spec 79"
  by (simp add: fibonacci_79 fib_spec_79)

section \<open>Numeric query parameters\<close>

lemmas parseInt_eval =
  parseInt_def trimStart.simps white_space_length_def is_digit_def digit_value_def to_number_def

lemma parseInt_zero: "parseInt ''0'' = Some 0"
  by (simp add: parseInt_eval)

lemma parseInt_undefined: "parseInt_query None = None"
  by (simp add: parseInt_query_def parseInt_eval)

text \<open>
  What every handler makes of a query value: the parsed integer when there is one and it
  is not zero, the default otherwise.
\<close>

lemma or_default_cases:
  "or_default (parseInt_query q) d =
     (if parseInt_query q = None \<or> parseInt_query q = Some 0 then d
      else the (parseInt_query q))"
  by (cases "parseInt_query q") (simp_all add: or_default_def)

text \<open>
  C2. A query value of \<^verbatim>\<open>0\<close> parses to the integer 0, and every handler then replaces
  it by its default, because \<^verbatim>\<open>parseInt(...) || d\<close> takes \<open>d\<close> for zero as for
  \<^verbatim>\<open>NaN\<close>: \<^verbatim>\<open>n=0\<close> becomes 40, \<^verbatim>\<open>size=0\<close> becomes 10, \<^verbatim>\<open>delay=0\<close> becomes 100, and
  \<^verbatim>\<open>cpu=0\<close>, \<^verbatim>\<open>memory=0\<close>, \<^verbatim>\<open>delay=0\<close> of the combined endpoint become 30, 5 and 50.
\<close>

theorem zero_replaced_by_default:
  "parseInt_query (Some ''0'') = Some 0
   \<and> cpu_load_n (Some ''0'') = 40
   \<and> memory_load_sizeMB (Some ''0'') = 10
   \<and> async_load_delay (Some ''0'') = 100
   \<and> combined_load_cpuWork (Some ''0'') = 30
   \<and> combined_load_memoryMB (Some ''0'') = 5
   \<and> combined_load_asyncDelay (Some ''0'') = 50"
  by (simp add: parseInt_query_def parseInt_zero or_default_def cpu_load_n_def
      memory_load_sizeMB_def async_load_delay_def combined_load_cpuWork_def
      combined_load_memoryMB_def combined_load_asyncDelay_def)

section \<open>The metrics snapshot\<close>

lemma field_res_json:
  "field (res_json (JSObject kvs)) k = map_of (map (map_prod id JSON_stringify) kvs) k"
  by (simp add: field_def res_json_def)

lemmas steps =
  Date_now_def nsolid_profile_def call_fibonacci_def call_allocateMemory_def
  await_setTimeout_def setTimeout_clear_def process_memoryUsage_def

text \<open>
  Before it is serialised, the rate at zero uptime is \<^verbatim>\<open>NaN\<close> when no request was
  counted and \<^verbatim>\<open>Infinity\<close> otherwise: the handler divides without a guard.
\<close>

lemma js_divide_zero_uptime:
  "js_divide (of_int c) 0 = (if c = 0 then NaN else if 0 < c then PosInfinity else NegInfinity)"
  by (simp add: js_divide_def)

text \<open>
  C3. In the JSON that \<^verbatim>\<open>/api/metrics\<close> sends, \<^verbatim>\<open>uptime\<close> is the time since
  \<^verbatim>\<open>startTime\<close> in seconds and \<^verbatim>\<open>requestsPerSecond\<close> is \<^verbatim>\<open>requestCount\<close> divided by that
  uptime; when the uptime is exactly zero the field is \<^verbatim>\<open>null\<close>, so it is never an
  infinite or \<^verbatim>\<open>NaN\<close> value.
\<close>

theorem metrics_requestsPerSecond:
  "field (reply (fst (metrics_handler e s))) ''uptime''
     = Some (JNum (of_int (t0 e - startTime (metrics s)) / 1000))
   \<and> field (reply (fst (metrics_handler e s))) ''requestsPerSecond''
     = Some (if t0 e = startTime (metrics s) then JNull
             else JNum (of_int (requestCount (metrics s))
                        / (of_int (t0 e - startTime (metrics s)) / 1000)))"
  by (simp add: metrics_handler_def steps field_res_json js_divide_def Let_def)

section \<open>Failures\<close>

text \<open>
  C9. Each of the two process-wide handlers adds one to \<^verbatim>\<open>errors\<close> and writes one line
  to the error console; it leaves \<^verbatim>\<open>requestCount\<close> and \<^verbatim>\<open>startTime\<close> as they are and
  does not end the process.
\<close>

theorem global_handlers_count_errors:
  "errors (metrics (uncaughtException err s)) = errors (metrics s) + 1
   \<and> requestCount (metrics (uncaughtException err s)) = requestCount (metrics s)
   \<and> startTime (metrics (uncaughtException err s)) = startTime (metrics s)
   \<and> exited (uncaughtException err s) = exited s
   \<and> heap (uncaughtException err s) = heap s
   \<and> console (uncaughtException err s)
       = console s @ [[LText ''Uncaught Exception:'', LError err]]
   \<and> errors (metrics (unhandledRejection reason promise s)) = errors (metrics s) + 1
   \<and> requestCount (metrics (unhandledRejection reason promise s)) = requestCount (metrics s)
   \<and> startTime (metrics (unhandledRejection reason promise s)) = startTime (metrics s)
   \<and> exited (unhandledRejection reason promise s) = exited s
   \<and> heap (unhandledRejection reason promise s) = heap s
   \<and> console (unhandledRejection reason promise s)
       = console s @ [[LText ''Unhandled Rejection at:'', LText promise,
                       LText ''reason:'', LError reason]]"
  by (simp add: uncaughtException_def unhandledRejection_def)

text \<open>A failing render runs the catch block on the state whose request count is already raised.\<close>

lemma ssr_handler_thrown:
  "thrown entryServer = Some e \<Longrightarrow>
   ssr_handler templateHtml entryServer s =
     ssr_catch e (s\<lparr>metrics := (metrics s)\<lparr>requestCount := requestCount (metrics s) + 1\<rparr>\<rparr>)"
  by (cases entryServer rule: thrown.cases) (simp_all add: ssr_handler_def)

lemma ssr_catch_metrics:
  "metrics (snd (ssr_catch e s)) = (metrics s)\<lparr>errors := errors (metrics s) + 1\<rparr>"
  by (cases e) (simp_all add: ssr_catch_def)

text \<open>
  C6. When the import or the renderer of a catch-all request throws an \<^verbatim>\<open>Error\<close>, an
  object with a stack \<open>st\<close>, the response has status 500 and \<open>st\<close> as its body, \<^verbatim>\<open>errors\<close>
  grows by exactly one, the stack is logged, and the process is not ended.
\<close>

theorem render_error_is_500:
  assumes "thrown entryServer = Some (Error st)"
  shows "fst (ssr_handler templateHtml entryServer s)
      = Inr \<lparr>reply = \<lparr>status = 500, content_type = None, body = Text st\<rparr>, effects = []\<rparr>
    \<and> errors (metrics (snd (ssr_handler templateHtml entryServer s))) = errors (metrics s) + 1
    \<and> console (snd (ssr_handler templateHtml entryServer s)) = console s @ [[LText st]]
    \<and> exited (snd (ssr_handler templateHtml entryServer s)) = exited s
    \<and> heap (snd (ssr_handler templateHtml entryServer s)) = heap s"
  by (simp add: ssr_handler_thrown [OF assms] ssr_catch_def)

theorem render_error_is_500_witness:
  "thrown (Inr (Inl (Error ''boom''))) = Some (Error ''boom'')
   \<and> fst (ssr_handler ''<!--app-html-->'' (Inr (Inl (Error ''boom''))) (initial 0))
      = Inr \<lparr>reply = \<lparr>status = 500, content_type = None, body = Text ''boom''\<rparr>, effects = []\<rparr>
   \<and> errors (metrics (snd (ssr_handler ''<!--app-html-->'' (Inr (Inl (Error ''boom'')))
        (initial 0)))) = 1
   \<and> exited (snd (ssr_handler ''<!--app-html-->'' (Inr (Inl (Error ''boom'')))
        (initial 0))) = None"
  using render_error_is_500 [of "Inr (Inl (Error ''boom''))" "''boom''"
      "''<!--app-html-->''" "initial 0"]
  by (simp add: initial_def)

text \<open>
  When the renderer rejects with \<^verbatim>\<open>null\<close> or \<^verbatim>\<open>undefined\<close>, the catch block throws at
  \<^verbatim>\<open>e.stack\<close> after it has counted the error: no response is sent, and the unhandled
  rejection that follows is counted as a second error. When a value without a stack is
  thrown, the response has status 500 and an empty body.
\<close>

theorem render_failure_counterexample:
  "fst (ssr_handler ''<!--app-html-->'' (Inr (Inl Nullish)) (initial 0)) = Inl TypeError
   \<and> errors (metrics (snd (ssr_handler ''<!--app-html-->'' (Inr (Inl Nullish)) (initial 0)))) = 1
   \<and> errors (metrics (run ''<!--app-html-->'' (initial 0)
        [Request (Render (Inr (Inl Nullish))) (env_at 0 1),
         UnhandledRejection (Error ''TypeError'') ''Promise''])) = 2
   \<and> fst (ssr_handler ''<!--app-html-->'' (Inr (Inl NoStack)) (initial 0))
      = Inr \<lparr>reply = \<lparr>status = 500, content_type = None, body = Text []\<rparr>, effects = []\<rparr>"
  by (simp add: ssr_handler_def ssr_catch_def run_def unhandledRejection_def initial_def)

text \<open>
  C10. A catch-all request that fails has raised \<^verbatim>\<open>requestCount\<close> before the failure:
  the catch block runs on the state with the count already raised and does not undo it,
  so the request adds one to \<^verbatim>\<open>requestCount\<close> and one to \<^verbatim>\<open>errors\<close>.
\<close>

theorem failed_render_counts_twice:
  assumes "thrown entryServer = Some e"
  shows "ssr_handler templateHtml entryServer s =
      ssr_catch e (s\<lparr>metrics := (metrics s)\<lparr>requestCount := requestCount (metrics s) + 1\<rparr>\<rparr>)
    \<and> requestCount (metrics (snd (ssr_handler templateHtml entryServer s)))
        = requestCount (metrics s) + 1
    \<and> errors (metrics (snd (ssr_handler templateHtml entryServer s))) = errors (metrics s) + 1
    \<and> startTime (metrics (snd (ssr_handler templateHtml entryServer s))) = startTime (metrics s)"
  by (simp add: ssr_handler_thrown [OF assms] ssr_catch_metrics)

theorem failed_render_counts_twice_witness:
  "thrown (Inl (Error ''no entry'')) = Some (Error ''no entry'')
   \<and> requestCount (metrics (snd (ssr_handler ''t'' (Inl (Error ''no entry'')) (initial 7)))) = 1
   \<and> errors (metrics (snd (ssr_handler ''t'' (Inl (Error ''no entry'')) (initial 7)))) = 1"
  using failed_render_counts_twice [of "Inl (Error ''no entry'')" "Error ''no entry''" "''t''"
      "initial 7"]
  by (simp add: initial_def ssr_catch_metrics)

section \<open>The memory load generator\<close>






section \<open>The delay endpoint\<close>




section \<open>Counters over the life of the process\<close>

lemma handle_api_metrics:
  "\<not> is_render (Request r e) \<Longrightarrow> metrics (snd (handle templateHtml r e s)) = metrics s"
  by (cases r)
    (simp_all add: health_handler_def metrics_handler_def cpu_load_handler_def
      memory_load_handler_def async_load_handler_def async_load_def
      combined_load_handler_def combined_load_def steps
      Let_def split_def split: sum.splits)

lemma ssr_handler_requestCount:
  "requestCount (metrics (snd (ssr_handler templateHtml entryServer s)))
     = requestCount (metrics s) + 1"
  by (cases entryServer rule: thrown.cases)
    (simp_all add: ssr_handler_def ssr_catch_metrics)

lemma ssr_handler_errors:
  "errors (metrics (snd (ssr_handler templateHtml entryServer s)))
     = errors (metrics s) + (if failed entryServer then 1 else 0)"
  by (cases entryServer rule: thrown.cases)
    (simp_all add: ssr_handler_def ssr_catch_metrics failed_def)

lemma occur_requestCount:
  "requestCount (metrics (occur templateHtml s ev))
     = requestCount (metrics s) + (if is_render ev then 1 else 0)"
proof (cases ev)
  case (Request r e)
  show ?thesis
  proof (cases "is_render ev")
    case True
    then obtain entryServer where "r = Render entryServer"
      using Request by (cases r) simp_all
    then show ?thesis
      using Request by (simp add: ssr_handler_requestCount)
  next
    case False
    then show ?thesis
      using Request handle_api_metrics [of r e templateHtml s] by simp
  qed
next
  case (UncaughtException err)
  then show ?thesis by (simp add: uncaughtException_def)
next
  case (UnhandledRejection reason promise)
  then show ?thesis by (simp add: unhandledRejection_def)
qed

lemma occur_errors:
  "errors (metrics (occur templateHtml s ev))
     = errors (metrics s) + (if is_error ev then 1 else 0)"
proof (cases ev)
  case (Request r e)
  show ?thesis
  proof (cases "is_render ev")
    case True
    then obtain entryServer where "r = Render entryServer"
      using Request by (cases r) simp_all
    then show ?thesis
      using Request by (simp add: ssr_handler_errors)
  next
    case False
    then have "\<not> is_error ev"
      using Request by (cases r) simp_all
    then show ?thesis
      using False Request handle_api_metrics [of r e templateHtml s] by simp
  qed
next
  case (UncaughtException err)
  then show ?thesis by (simp add: uncaughtException_def)
next
  case (UnhandledRejection reason promise)
  then show ?thesis by (simp add: unhandledRejection_def)
qed

lemma run_requestCount:
  "requestCount (metrics (run templateHtml s evs))
     = requestCount (metrics s) + int (length (filter is_render evs))"
  unfolding run_def
  by (induction evs arbitrary: s) (simp_all add: occur_requestCount)

lemma run_errors:
  "errors (metrics (run templateHtml s evs))
     = errors (metrics s) + int (length (filter is_error evs))"
  unfolding run_def
  by (induction evs arbitrary: s) (simp_all add: occur_errors)

lemma run_append: "run templateHtml s (evs @ later) = run templateHtml (run templateHtml s evs) later"
  by (simp add: run_def)

text \<open>
  C4. Over every sequence of events, \<^verbatim>\<open>requestCount\<close> has grown by the number of
  catch-all requests in it and \<^verbatim>\<open>errors\<close> by the number of failed catch-all requests,
  uncaught exceptions and unhandled rejections; neither counter ever decreases as the
  sequence goes on; and a request to one of the six \<^verbatim>\<open>/api\<close> endpoints leaves the
  metrics as they are.
\<close>

theorem counters_over_events:
  "requestCount (metrics (run templateHtml s evs))
     = requestCount (metrics s) + int (length (filter is_render evs))
   \<and> errors (metrics (run templateHtml s evs))
     = errors (metrics s) + int (length (filter is_error evs))
   \<and> requestCount (metrics (run templateHtml s evs))
     \<le> requestCount (metrics (run templateHtml s (evs @ later)))
   \<and> errors (metrics (run templateHtml s evs))
     \<le> errors (metrics (run templateHtml s (evs @ later)))
   \<and> (\<not> is_render (Request r e) \<longrightarrow>
        metrics (occur templateHtml s (Request r e)) = metrics s)"
  by (simp add: run_requestCount run_errors run_append handle_api_metrics)

theorem counters_over_events_witness:
  "\<not> is_render (Request (CpuLoad (Some ''3'')) (env_at 0 1))
   \<and> metrics (occur [] (initial 0) (Request (CpuLoad (Some ''3'')) (env_at 0 1)))
       = metrics (initial 0)
   \<and> requestCount (metrics (run [] (initial 0)
        [Request (Render (Inr (Inr ''<p>hi</p>''))) (env_at 0 1),
         UncaughtException (Error ''x''),
         Request (Render (Inl (Error ''y''))) (env_at 0 1)])) = 2
   \<and> errors (metrics (run [] (initial 0)
        [Request (Render (Inr (Inr ''<p>hi</p>''))) (env_at 0 1),
         UncaughtException (Error ''x''),
         Request (Render (Inl (Error ''y''))) (env_at 0 1)])) = 2"
  using counters_over_events [of "[]" "initial 0"
      "[Request (Render (Inr (Inr ''<p>hi</p>''))) (env_at 0 1),
         UncaughtException (Error ''x''),
         Request (Render (Inl (Error ''y''))) (env_at 0 1)]"
      "[]" "CpuLoad (Some ''3'')" "env_at 0 1"]
  by (simp add: initial_def failed_def)

section \<open>The combined load endpoint\<close>











end
